theory Spec2Isabelle
  imports Complex_Main "HOL-Library.Char_ord"
begin

section \<open>Data model of aeroports\_proximite.py\<close>

text \<open>
  The module keeps one global table, \<^verbatim>\<open>airports\<close>, a GeoDataFrame built once from
  \<^verbatim>\<open>csv/airports.csv\<close> and then read (and written) by the two functions
  \<^verbatim>\<open>get_airport_info\<close> and \<^verbatim>\<open>find_nearby_airports\<close>.

  Conventions of the embedding:
  \<^item> a cell of a text column is a \<open>string option\<close>: \<open>None\<close> is the missing value that
    \<^verbatim>\<open>pd.read_csv\<close> stores for an empty cell;
  \<^item> a cell of a coordinate column is a number, or text that \<^verbatim>\<open>read_csv\<close> could not
    read as a number and left as it was;
  \<^item> the double-precision numbers of pandas and shapely are idealised as reals: rounding,
    infinities and not-a-number values are outside the model;
  \<^item> a table is the list of its rows in index order.
\<close>

type_synonym cell = "string option"

datatype coord = Num real | Text string

text \<open>A row of \<^verbatim>\<open>df\<close>, restricted to the six columns that line 14 keeps.\<close>

record df_row =
  df_ident :: cell
  df_name :: cell
  df_type :: cell
  df_latitude_deg :: coord
  df_longitude_deg :: coord
  df_iso_country :: cell

text \<open>\<^verbatim>\<open>shapely.geometry.Point\<close> with its two coordinates \<^verbatim>\<open>.x\<close> and \<^verbatim>\<open>.y\<close>.\<close>

datatype point = Point (point_x: real) (point_y: real)

text \<open>A row of \<^verbatim>\<open>filtered_df\<close> after the renaming of line 15 and the new column of line 18.\<close>

record airport =
  code_oaci :: cell
  name :: cell
  type :: cell
  lat :: real
  lon :: real
  iso_country :: cell
  geometry :: point

text \<open>
  The global \<^verbatim>\<open>airports\<close>: its rows, and the column \<^verbatim>\<open>"distance"\<close>, which does not exist
  after the load (\<open>None\<close>) and holds one value per row once a query has assigned it.
\<close>

record geo_frame =
  rows :: "airport list"
  distance :: "real list option"

section \<open>Loading (lines 11 to 21)\<close>

text \<open>
  \<^verbatim>\<open>Point(xy)\<close> converts its coordinates to floating point and raises on text that is not a
  number; the list comprehension of line 18 has no handler, so the exception ends the import
  of the module.
\<close>

datatype load_error = PointError

fun number :: "coord \<Rightarrow> real option" where
  "number (Num v) = Some v"
| "number (Text s) = None"

definition make_airport :: "df_row \<Rightarrow> load_error + airport" where
  "make_airport r =
     (case (number (df_longitude_deg r), number (df_latitude_deg r)) of
        (Some lo, Some la) \<Rightarrow>
          Inr \<lparr>code_oaci = df_ident r, name = df_name r, type = df_type r,
               lat = la, lon = lo, iso_country = df_iso_country r,
               geometry = Point lo la\<rparr>
      | _ \<Rightarrow> Inl PointError)"

fun load_rows :: "df_row list \<Rightarrow> load_error + airport list" where
  "load_rows [] = Inr []"
| "load_rows (r # rs) =
     (case make_airport r of
        Inl e \<Rightarrow> Inl e
      | Inr a \<Rightarrow> (case load_rows rs of Inl e \<Rightarrow> Inl e | Inr as \<Rightarrow> Inr (a # as)))"

definition load :: "df_row list \<Rightarrow> load_error + geo_frame" where
  "load df =
     (case load_rows df of
        Inl e \<Rightarrow> Inl e
      | Inr as \<Rightarrow> Inr \<lparr>rows = as, distance = None\<rparr>)"

section \<open>Lookup by code (lines 23 to 37)\<close>

record airport_info =
  info_name :: cell
  info_type :: cell
  info_geometry :: point

definition get_airport_info :: "string \<Rightarrow> geo_frame \<Rightarrow> airport_info option" where
  "get_airport_info code airports =
     (case filter (\<lambda>r. code_oaci r = Some code) (rows airports) of
        [] \<Rightarrow> None
      | r # _ \<Rightarrow>
          Some \<lparr>info_name = name r, info_type = type r, info_geometry = geometry r\<rparr>)"

section \<open>Nearest airports (lines 39 to 56)\<close>

text \<open>The distance of shapely between two points: the Euclidean distance in the plane.\<close>

definition point_distance :: "point \<Rightarrow> point \<Rightarrow> real" where
  "point_distance p q = sqrt ((point_x p - point_x q)\<^sup>2 + (point_y p - point_y q)\<^sup>2)"

text \<open>
  \<^verbatim>\<open>DataFrame.nsmallest(n, "distance")\<close> with the default \<^verbatim>\<open>keep="first"\<close>: the first \<open>n\<close>
  rows in ascending order of the column, rows of equal value in the order of the table; no row
  at all for \<open>n \<le> 0\<close>. A row travels with its value of the column.
\<close>

definition nsmallest :: "int \<Rightarrow> (airport \<times> real) list \<Rightarrow> (airport \<times> real) list" where
  "nsmallest n table = (if n \<le> 0 then [] else take (nat n) (sort_key snd table))"

text \<open>
  The function assigns the column \<^verbatim>\<open>"distance"\<close> of the global table (line 49) before it
  selects rows from it, so the model takes the table and returns it updated, beside the
  selected rows.
\<close>

definition find_nearby_airports ::
  "point \<Rightarrow> string \<Rightarrow> string \<Rightarrow> int \<Rightarrow> geo_frame \<Rightarrow> (airport \<times> real) list \<times> geo_frame" where
  "find_nearby_airports geom selected_type exclude_oaci max_results airports =
     (let dists = map (\<lambda>r. point_distance (geometry r) geom) (rows airports);
          airports' = airports\<lparr>distance := Some dists\<rparr>;
          filtered_airports =
            filter (\<lambda>(r, d). code_oaci r \<noteq> Some exclude_oaci) (zip (rows airports') dists);
          filtered_airports' =
            (if selected_type \<noteq> ''all''
             then filter (\<lambda>(r, d). type r = Some selected_type) filtered_airports
             else filtered_airports)
      in (nsmallest max_results filtered_airports', airports'))"

section \<open>A small table\<close>

text \<open>Three airports on one parallel, one degree of longitude apart.\<close>

definition example_df :: "df_row list" where
  "example_df =
     [\<lparr>df_ident = Some ''AAAA'', df_name = Some ''Alpha'', df_type = Some ''large_airport'',
       df_latitude_deg = Num 0, df_longitude_deg = Num 0, df_iso_country = Some ''FR''\<rparr>,
      \<lparr>df_ident = Some ''BBBB'', df_name = Some ''Bravo'', df_type = Some ''medium_airport'',
       df_latitude_deg = Num 0, df_longitude_deg = Num 1, df_iso_country = Some ''FR''\<rparr>,
      \<lparr>df_ident = Some ''CCCC'', df_name = Some ''Charlie'', df_type = Some ''large_airport'',
       df_latitude_deg = Num 0, df_longitude_deg = Num 2, df_iso_country = Some ''FR''\<rparr>]"

definition airport_A :: airport where
  "airport_A = \<lparr>code_oaci = Some ''AAAA'', name = Some ''Alpha'', type = Some ''large_airport'',
     lat = 0, lon = 0, iso_country = Some ''FR'', geometry = Point 0 0\<rparr>"

definition airport_B :: airport where
  "airport_B = \<lparr>code_oaci = Some ''BBBB'', name = Some ''Bravo'', type = Some ''medium_airport'',
     lat = 0, lon = 1, iso_country = Some ''FR'', geometry = Point 1 0\<rparr>"

definition airport_C :: airport where
  "airport_C = \<lparr>code_oaci = Some ''CCCC'', name = Some ''Charlie'', type = Some ''large_airport'',
     lat = 0, lon = 2, iso_country = Some ''FR'', geometry = Point 2 0\<rparr>"

definition example_airports :: geo_frame where
  "example_airports = \<lparr>rows = [airport_A, airport_B, airport_C], distance = None\<rparr>"

text \<open>Three more rows of a source: a code in lower case after a blank, a latitude that is
  not a number, and an empty code.\<close>

definition row_lower :: df_row where
  "row_lower = \<lparr>df_ident = Some '' lfmk'', df_name = Some ''Marcillac'',
     df_type = Some ''small_airport'', df_latitude_deg = Num 44, df_longitude_deg = Num 2,
     df_iso_country = Some ''FR''\<rparr>"

definition airport_lower :: airport where
  "airport_lower = \<lparr>code_oaci = Some '' lfmk'', name = Some ''Marcillac'',
     type = Some ''small_airport'', lat = 44, lon = 2, iso_country = Some ''FR'',
     geometry = Point 2 44\<rparr>"



text \<open>A fourth row that repeats the code of the first, and the table of the four.\<close>

definition row_duplicate :: df_row where
  "row_duplicate = \<lparr>df_ident = Some ''AAAA'', df_name = Some ''Alpha bis'',
     df_type = Some ''small_airport'', df_latitude_deg = Num 0, df_longitude_deg = Num 3,
     df_iso_country = Some ''FR''\<rparr>"

definition airport_A2 :: airport where
  "airport_A2 = \<lparr>code_oaci = Some ''AAAA'', name = Some ''Alpha bis'',
     type = Some ''small_airport'', lat = 0, lon = 3, iso_country = Some ''FR'',
     geometry = Point 3 0\<rparr>"

definition duplicate_airports :: geo_frame where
  "duplicate_airports = \<lparr>rows = [airport_A, airport_B, airport_C, airport_A2], distance = None\<rparr>"

section \<open>The words of the specification\<close>

text \<open>
  \<^verbatim>\<open>str.upper\<close> on ASCII text, which line 112 applies to the code typed by the user before
  the lookup; characters outside ASCII are outside the model.
\<close>

definition upper_char :: "char \<Rightarrow> char" where
  "upper_char c =
     (if CHR ''a'' \<le> c \<and> c \<le> CHR ''z'' then char_of (of_char c - (32::nat)) else c)"

definition upper :: "string \<Rightarrow> string" where
  "upper s = map upper_char s"

text \<open>
  The normalisation of a code that the specification gives to the loader, trimming and
  upper case, written from its words; the source has no counterpart of it at load time.
\<close>

definition is_space :: "char \<Rightarrow> bool" where
  "is_space c = (c \<in> set [CHR '' '', CHR 0x09, CHR 0x0A, CHR 0x0B, CHR 0x0C, CHR 0x0D])"

definition spec_strip :: "string \<Rightarrow> string" where
  "spec_strip s = rev (dropWhile is_space (rev (dropWhile is_space s)))"

definition spec_normalize_code :: "string \<Rightarrow> string" where
  "spec_normalize_code s = upper (spec_strip s)"


text \<open>
  A position that the specification takes as valid: a latitude (the \<open>y\<close> of the point)
  between -90 and 90 and a longitude (its \<open>x\<close>) between -180 and 180.
\<close>

definition spec_valid_position :: "point \<Rightarrow> bool" where
  "spec_valid_position p =
     (- 90 \<le> point_y p \<and> point_y p \<le> 90 \<and> - 180 \<le> point_x p \<and> point_x p \<le> 180)"

text \<open>
  The error signal that the specification names for a query. The call of
  \<^verbatim>\<open>find_nearby_airports\<close> as its caller sees it, a value or an error: the body of the
  function (lines 49 to 56) has no \<^verbatim>\<open>raise\<close> and no test of its arguments, and the
  operations it applies to the table are defined on every table of the model, so every call
  returns its value.
\<close>

datatype query_error = InvalidQuery

definition find_nearby_airports_outcome ::
  "point \<Rightarrow> string \<Rightarrow> string \<Rightarrow> int \<Rightarrow> geo_frame
     \<Rightarrow> query_error + ((airport \<times> real) list \<times> geo_frame)" where
  "find_nearby_airports_outcome geom selected_type exclude_oaci max_results airports =
     Inr (find_nearby_airports geom selected_type exclude_oaci max_results airports)"

section \<open>Auxiliary facts\<close>

lemma load_example: "load example_df = Inr example_airports"
  by (simp add: load_def example_df_def example_airports_def make_airport_def
      airport_A_def airport_B_def airport_C_def)

lemma example_rows: "load_rows example_df = Inr (rows example_airports)"
  by (simp add: example_df_def example_airports_def make_airport_def
      airport_A_def airport_B_def airport_C_def)

lemma zip_self_map: "zip xs (map f xs) = map (\<lambda>x. (x, f x)) xs"
  by (induction xs) auto

text \<open>The selected rows, with the two filters of lines 50 and 54 merged into one.\<close>

lemma fst_find_nearby_airports:
  "fst (find_nearby_airports g t e n a) =
     nsmallest n (map (\<lambda>r. (r, point_distance (geometry r) g))
       (filter (\<lambda>r. code_oaci r \<noteq> Some e \<and> (t = ''all'' \<or> type r = Some t)) (rows a)))"
  by (auto simp: find_nearby_airports_def Let_def zip_self_map filter_map o_def case_prod_unfold
      intro: arg_cong [where f = "nsmallest n"] filter_cong)

lemma snd_find_nearby_airports:
  "snd (find_nearby_airports g t e n a) =
     a\<lparr>distance := Some (map (\<lambda>r. point_distance (geometry r) g) (rows a))\<rparr>"
  by (simp add: find_nearby_airports_def Let_def)

lemma set_nsmallest: "set (nsmallest n tbl) \<subseteq> set tbl"
  by (auto simp: nsmallest_def dest: in_set_takeD)

lemma sorted_nsmallest: "sorted (map snd (nsmallest n tbl))"
  by (simp add: nsmallest_def sorted_wrt_take flip: take_map)

lemma length_nsmallest: "length (nsmallest n tbl) = min (nat n) (length tbl)"
  by (simp add: nsmallest_def min.commute)

lemma filter_eq_le_1: "distinct (map f xs) \<Longrightarrow> length (filter (\<lambda>r. f r = v) xs) \<le> Suc 0"
  by (induction xs) (auto simp: filter_empty_conv image_iff)

lemma filter_split_le:
  "length (filter P xs)
     \<le> length (filter (\<lambda>r. Q r \<and> P r) xs) + length (filter (\<lambda>r. \<not> Q r) xs)"
  by (induction xs) auto

lemma load_rows_geometry:
  "load_rows df = Inr as \<Longrightarrow> r \<in> set as \<Longrightarrow> geometry r = Point (lon r) (lat r)"
proof (induction df arbitrary: as)
  case Nil
  then show ?case by simp
next
  case (Cons x df)
  then show ?case
    by (auto simp: make_airport_def split: sum.splits option.splits)
qed



lemma load_rows_codes: "load_rows df = Inr as \<Longrightarrow> map code_oaci as = map df_ident df"
proof (induction df arbitrary: as)
  case Nil
  then show ?case by simp
next
  case (Cons x df)
  then show ?case
    by (auto simp: make_airport_def split: sum.splits option.splits)
qed

lemma first_match:
  "(case filter P xs of [] \<Rightarrow> None | r # _ \<Rightarrow> Some (f r)) = map_option f (find P xs)"
  by (induction xs) auto

lemma get_airport_info_find:
  "get_airport_info c a =
     map_option (\<lambda>r. \<lparr>info_name = name r, info_type = type r, info_geometry = geometry r\<rparr>)
       (find (\<lambda>r. code_oaci r = Some c) (rows a))"
  unfolding get_airport_info_def by (rule first_match)

lemma normalize_lower: "spec_normalize_code '' lfmk'' = ''LFMK''"
  by code_simp

lemma upper_lower: "upper ''lfmk'' = ''LFMK''"
  by code_simp

lemma query_out_of_range:
  "fst (find_nearby_airports (Point 0 100) ''all'' ''AAAA'' 4 example_airports) =
     [(airport_B, sqrt 10001), (airport_C, sqrt 10004)]"
  by (simp add: find_nearby_airports_def Let_def example_airports_def airport_A_def
      airport_B_def airport_C_def nsmallest_def point_distance_def)

lemma filter_conj: "filter (\<lambda>r. P r \<and> Q r) xs = filter P (filter Q xs)"
  by (induction xs) auto

lemma in_nsmallest: "(r, d) \<in> set (nsmallest n (map (\<lambda>r. (r, f r)) xs)) \<Longrightarrow> r \<in> set xs \<and> d = f r"
  using set_nsmallest [of n "map (\<lambda>r. (r, f r)) xs"] by auto

text \<open>Queries used as concrete inputs below, on the small table.\<close>

lemma query_all:
  "fst (find_nearby_airports (Point 0 0) ''all'' ''AAAA'' 4 example_airports) =
     [(airport_B, 1), (airport_C, 2)]"
  by (simp add: find_nearby_airports_def Let_def example_airports_def airport_A_def
      airport_B_def airport_C_def nsmallest_def point_distance_def)

lemma query_large:
  "fst (find_nearby_airports (Point 0 0) ''large_airport'' ''AAAA'' 4 example_airports) =
     [(airport_C, 2)]"
  by (simp add: find_nearby_airports_def Let_def example_airports_def airport_A_def
      airport_B_def airport_C_def nsmallest_def point_distance_def)

lemma load_duplicate: "load (example_df @ [row_duplicate]) = Inr duplicate_airports"
  by (simp add: load_def example_df_def row_duplicate_def duplicate_airports_def make_airport_def
      airport_A_def airport_B_def airport_C_def airport_A2_def)

lemma query_duplicate: "fst (find_nearby_airports (Point 0 0) ''all'' ''AAAA'' 4 duplicate_airports) =
     [(airport_B, 1), (airport_C, 2)]"
  by (simp add: find_nearby_airports_def Let_def duplicate_airports_def airport_A_def
      airport_B_def airport_C_def airport_A2_def nsmallest_def point_distance_def)

lemma query_duplicate_none: "fst (find_nearby_airports (Point 0 0) ''all'' ''ZZZZ'' 4 duplicate_airports) =
     [(airport_A, 0), (airport_B, 1), (airport_C, 2), (airport_A2, 3)]"
  by (simp add: find_nearby_airports_def Let_def duplicate_airports_def airport_A_def
      airport_B_def airport_C_def airport_A2_def nsmallest_def point_distance_def)

section \<open>The query and the table it reads\<close>

text \<open>
  Claim C1 says that a query leaves the collection exactly as it was. Line 49 assigns the
  column \<^verbatim>\<open>"distance"\<close> of the global table, so the table after the first query differs
  from the loaded one: it has a column more.
\<close>

theorem find_nearby_airports_changes_table:
  "snd (find_nearby_airports (Point 0 0) ''all'' ''AAAA'' 4 example_airports) \<noteq> example_airports"
  by (simp add: snd_find_nearby_airports example_airports_def)

text \<open>
  Claim C1, as the code has it: a query leaves the rows of the table as they were (their
  number, their order and every loaded column) and sets the column \<^verbatim>\<open>"distance"\<close> to the
  distance of each row to the reference position; the table has nothing else.
\<close>

theorem find_nearby_airports_frame:
  "rows (snd (find_nearby_airports g t e n a)) = rows a \<and>
   distance (snd (find_nearby_airports g t e n a)) =
     Some (map (\<lambda>r. point_distance (geometry r) g) (rows a))"
  by (simp add: snd_find_nearby_airports)

section \<open>Order of the result\<close>

text \<open>
  Claim C2: the rows returned are in ascending order of their distance. The value returned
  with each row is the distance of that row to the reference position, and each row is at
  most as far from the reference position as the row after it.
\<close>

theorem find_nearby_airports_sorted: "sorted (map snd (fst (find_nearby_airports g t e n a))) \<and>
   (\<forall>(r, d) \<in> set (fst (find_nearby_airports g t e n a)). d = point_distance (geometry r) g) \<and>
   sorted (map (\<lambda>(r, d). point_distance (geometry r) g) (fst (find_nearby_airports g t e n a))) \<and>
   (\<forall>i. Suc i < length (fst (find_nearby_airports g t e n a)) \<longrightarrow>
      snd (fst (find_nearby_airports g t e n a) ! i)
        \<le> snd (fst (find_nearby_airports g t e n a) ! Suc i)) \<and>
   (\<forall>i. Suc i < length (fst (find_nearby_airports g t e n a)) \<longrightarrow>
      point_distance (geometry (fst (fst (find_nearby_airports g t e n a) ! i))) g
        \<le> point_distance (geometry (fst (fst (find_nearby_airports g t e n a) ! Suc i))) g)"
proof -
  let ?res = "fst (find_nearby_airports g t e n a)"
  have s: "sorted (map snd ?res)"
    by (simp only: fst_find_nearby_airports sorted_nsmallest)
  have d: "\<forall>(r, d) \<in> set ?res. d = point_distance (geometry r) g"
    by (auto simp: fst_find_nearby_airports dest: in_nsmallest)
  then have m: "map (\<lambda>(r, d). point_distance (geometry r) g) ?res = map snd ?res"
    by (intro map_cong) auto
  from s have i: "\<forall>i. Suc i < length (map snd ?res) \<longrightarrow> map snd ?res ! i \<le> map snd ?res ! Suc i"
    by (simp only: sorted_iff_nth_Suc)
  then have i1: "\<forall>i. Suc i < length ?res \<longrightarrow> snd (?res ! i) \<le> snd (?res ! Suc i)"
    by simp
  have e: "snd (?res ! j) = point_distance (geometry (fst (?res ! j))) g" if "j < length ?res" for j
  proof -
    from that have "?res ! j \<in> set ?res" by (rule nth_mem)
    with d show ?thesis by (cases "?res ! j") auto
  qed
  have i2: "\<forall>i. Suc i < length ?res \<longrightarrow>
      point_distance (geometry (fst (?res ! i))) g \<le> point_distance (geometry (fst (?res ! Suc i))) g"
  proof (intro allI impI)
    fix i assume l: "Suc i < length ?res"
    then have "snd (?res ! i) \<le> snd (?res ! Suc i)" using i1 by blast
    moreover from l have "i < length ?res" by simp
    ultimately show "point_distance (geometry (fst (?res ! i))) g \<le> point_distance (geometry (fst (?res ! Suc i))) g"
      using e [of i] e [of "Suc i"] l by simp
  qed
  from s m have s2: "sorted (map (\<lambda>(r, d). point_distance (geometry r) g) ?res)"
    by (simp only:)
  from s d s2 i1 i2 show ?thesis by blast
qed

theorem find_nearby_airports_sorted_witness:
  "fst (find_nearby_airports (Point 0 0) ''all'' ''AAAA'' 4 example_airports) = [(airport_B, 1), (airport_C, 2)] \<and>
   point_distance (geometry airport_B) (Point 0 0) = 1 \<and>
   point_distance (geometry airport_C) (Point 0 0) = 2 \<and>
   Suc 0 < length (fst (find_nearby_airports (Point 0 0) ''all'' ''AAAA'' 4 example_airports)) \<and>
   snd (fst (find_nearby_airports (Point 0 0) ''all'' ''AAAA'' 4 example_airports) ! 0)
     \<le> snd (fst (find_nearby_airports (Point 0 0) ''all'' ''AAAA'' 4 example_airports) ! Suc 0) \<and>
   point_distance (geometry (fst (fst (find_nearby_airports (Point 0 0) ''all'' ''AAAA'' 4 example_airports) ! 0))) (Point 0 0)
     \<le> point_distance (geometry (fst (fst (find_nearby_airports (Point 0 0) ''all'' ''AAAA'' 4 example_airports) ! Suc 0))) (Point 0 0)"
  using find_nearby_airports_sorted [of "Point 0 0" "''all''" "''AAAA''" 4 example_airports]
  by (simp add: query_all)

section \<open>Filter by type\<close>

text \<open>
  Claim C3: when the selected type is not \<^verbatim>\<open>"all"\<close>, every row returned has that type;
  when it is \<^verbatim>\<open>"all"\<close>, the rows returned are the nearest among all rows but the excluded
  one, whatever their type.
\<close>

theorem find_nearby_airports_type:
  "(t \<noteq> ''all'' \<longrightarrow>
      (\<forall>(r, d) \<in> set (fst (find_nearby_airports g t e n a)). type r = Some t)) \<and>
   (t = ''all'' \<longrightarrow>
      fst (find_nearby_airports g t e n a) =
        nsmallest n (map (\<lambda>r. (r, point_distance (geometry r) g))
          (filter (\<lambda>r. code_oaci r \<noteq> Some e) (rows a))))"
proof (intro conjI impI)
  assume "t \<noteq> ''all''"
  then show "\<forall>(r, d) \<in> set (fst (find_nearby_airports g t e n a)). type r = Some t"
    using set_nsmallest [of n] by (fastforce simp: fst_find_nearby_airports)
next
  assume "t = ''all''"
  then show "fst (find_nearby_airports g t e n a) =
      nsmallest n (map (\<lambda>r. (r, point_distance (geometry r) g))
        (filter (\<lambda>r. code_oaci r \<noteq> Some e) (rows a)))"
    by (simp add: fst_find_nearby_airports)
qed

theorem find_nearby_airports_type_witness:
  "''large_airport'' \<noteq> ''all'' \<and>
   fst (find_nearby_airports (Point 0 0) ''large_airport'' ''AAAA'' 4 example_airports) =
      [(airport_C, 2)] \<and>
   type airport_C = Some ''large_airport'' \<and>
   fst (find_nearby_airports (Point 0 0) ''all'' ''AAAA'' 4 example_airports) =
      nsmallest 4 (map (\<lambda>r. (r, point_distance (geometry r) (Point 0 0)))
        (filter (\<lambda>r. code_oaci r \<noteq> Some ''AAAA'') (rows example_airports)))"
  using find_nearby_airports_type [of "''large_airport''" "Point 0 0" "''AAAA''" 4 example_airports]
    find_nearby_airports_type [of "''all''" "Point 0 0" "''AAAA''" 4 example_airports]
  by (simp add: query_large airport_C_def)

section \<open>Exclusion of the reference airport\<close>

text \<open>
  Claim C4 says that the exclusion removes at most one record. The loader accepts a source
  in which two rows have the code \<^verbatim>\<open>AAAA\<close>; on the loaded table of four rows a query
  that excludes a code no row has returns the four rows, and the query that excludes
  \<^verbatim>\<open>AAAA\<close> returns two: line 50 has removed both rows of that code.
\<close>

theorem find_nearby_airports_excludes_duplicates: "load (example_df @ [row_duplicate]) = Inr duplicate_airports \<and>
   length (rows duplicate_airports) = 4 \<and>
   length (filter (\<lambda>r. code_oaci r = Some ''AAAA'') (rows duplicate_airports)) = 2 \<and>
   fst (find_nearby_airports (Point 0 0) ''all'' ''ZZZZ'' 4 duplicate_airports) =
     [(airport_A, 0), (airport_B, 1), (airport_C, 2), (airport_A2, 3)] \<and>
   fst (find_nearby_airports (Point 0 0) ''all'' ''AAAA'' 4 duplicate_airports) =
     [(airport_B, 1), (airport_C, 2)]"
  by (simp add: load_duplicate query_duplicate query_duplicate_none) (simp add: duplicate_airports_def airport_A_def
      airport_B_def airport_C_def airport_A2_def)

text \<open>
  Claim C4, as the code has it: no row returned has the excluded code, and the exclusion
  works by exact match of the code. The rows returned are the nearest, up to the limit, among
  the rows of the wanted type whose code differs from the excluded one, so the exclusion
  removes every row that has the excluded code and no other row; that is at most one row
  when the codes of the table are pairwise different.
\<close>

theorem find_nearby_airports_exclude: "fst (find_nearby_airports g t e n a) =
     nsmallest n (map (\<lambda>r. (r, point_distance (geometry r) g))
       (filter (\<lambda>r. code_oaci r \<noteq> Some e) (filter (\<lambda>r. t = ''all'' \<or> type r = Some t) (rows a)))) \<and>
   (\<forall>(r, d) \<in> set (fst (find_nearby_airports g t e n a)). code_oaci r \<noteq> Some e) \<and>
   (distinct (map code_oaci (rows a)) \<longrightarrow>
      length (filter (\<lambda>r. t = ''all'' \<or> type r = Some t) (rows a))
        \<le> Suc (length (filter (\<lambda>r. code_oaci r \<noteq> Some e)
              (filter (\<lambda>r. t = ''all'' \<or> type r = Some t) (rows a)))))"
proof (intro conjI impI)
  show "fst (find_nearby_airports g t e n a) =
     nsmallest n (map (\<lambda>r. (r, point_distance (geometry r) g))
       (filter (\<lambda>r. code_oaci r \<noteq> Some e) (filter (\<lambda>r. t = ''all'' \<or> type r = Some t) (rows a))))"
    by (simp only: fst_find_nearby_airports filter_conj)
next
  show "\<forall>(r, d) \<in> set (fst (find_nearby_airports g t e n a)). code_oaci r \<noteq> Some e"
    by (auto simp: fst_find_nearby_airports dest: in_nsmallest)
next
  assume h: "distinct (map code_oaci (rows a))"
  have "length (filter (\<lambda>r. t = ''all'' \<or> type r = Some t) (rows a)) \<le>
      length (filter (\<lambda>r. code_oaci r \<noteq> Some e \<and> (t = ''all'' \<or> type r = Some t)) (rows a))
        + length (filter (\<lambda>r. \<not> code_oaci r \<noteq> Some e) (rows a))"
    by (rule filter_split_le)
  moreover have "length (filter (\<lambda>r. \<not> code_oaci r \<noteq> Some e) (rows a)) \<le> Suc 0"
    using h filter_eq_le_1 [of code_oaci "rows a" "Some e"] by simp
  ultimately show "length (filter (\<lambda>r. t = ''all'' \<or> type r = Some t) (rows a))
        \<le> Suc (length (filter (\<lambda>r. code_oaci r \<noteq> Some e)
              (filter (\<lambda>r. t = ''all'' \<or> type r = Some t) (rows a))))"
    by (simp only: filter_conj)
qed

theorem find_nearby_airports_exclude_witness:
  "distinct (map code_oaci (rows example_airports)) \<and>
   fst (find_nearby_airports (Point 0 0) ''all'' ''AAAA'' 4 example_airports) =
     [(airport_B, 1), (airport_C, 2)] \<and>
   code_oaci airport_B \<noteq> Some ''AAAA'' \<and> code_oaci airport_C \<noteq> Some ''AAAA'' \<and>
   length (filter (\<lambda>r. ''all'' = ''all'' \<or> type r = Some ''all'') (rows example_airports))
     \<le> Suc (length (filter (\<lambda>r. code_oaci r \<noteq> Some ''AAAA'')
           (filter (\<lambda>r. ''all'' = ''all'' \<or> type r = Some ''all'') (rows example_airports))))"
  using find_nearby_airports_exclude [of "Point 0 0" "''all''" "''AAAA''" 4 example_airports]
  by (simp add: query_all) (simp add: example_airports_def airport_A_def airport_B_def airport_C_def)

section \<open>Size of the result\<close>

text \<open>
  Claim C5: with a positive limit the result has at most as many rows as the limit, exactly as
  many when at least that many rows pass the exclusion and the filter by type, and it is the
  empty list, an ordinary value, when no row passes them.
\<close>

theorem find_nearby_airports_length:
  "0 < n \<Longrightarrow>
   length (fst (find_nearby_airports g t e n a)) \<le> nat n \<and>
   (nat n \<le> length (filter (\<lambda>r. code_oaci r \<noteq> Some e \<and> (t = ''all'' \<or> type r = Some t)) (rows a))
      \<longrightarrow> length (fst (find_nearby_airports g t e n a)) = nat n) \<and>
   (filter (\<lambda>r. code_oaci r \<noteq> Some e \<and> (t = ''all'' \<or> type r = Some t)) (rows a) = []
      \<longrightarrow> fst (find_nearby_airports g t e n a) = [])"
  by (simp add: fst_find_nearby_airports length_nsmallest nsmallest_def)

theorem find_nearby_airports_length_witness:
  "((0::int) < 1 \<and>
    nat 1 \<le> length (filter (\<lambda>r. code_oaci r \<noteq> Some ''CCCC'' \<and>
                (''all'' = ''all'' \<or> type r = Some ''all'')) (rows example_airports)) \<and>
    length (fst (find_nearby_airports (Point 2 0) ''all'' ''CCCC'' 1 example_airports)) = nat 1) \<and>
   ((0::int) < 4 \<and>
    filter (\<lambda>r. code_oaci r \<noteq> Some ''AAAA'' \<and>
       (''heliport'' = ''all'' \<or> type r = Some ''heliport'')) (rows example_airports) = [] \<and>
    fst (find_nearby_airports (Point 0 0) ''heliport'' ''AAAA'' 4 example_airports) = [])"
  using find_nearby_airports_length [of 1 "Point 2 0" "''all''" "''CCCC''" example_airports]
    find_nearby_airports_length [of 4 "Point 0 0" "''heliport''" "''AAAA''" example_airports]
  by (simp add: example_airports_def airport_A_def airport_B_def airport_C_def)

section \<open>The distance\<close>

text \<open>
  Claim C6: on a loaded table, the distance returned with a row is the Euclidean distance in
  the plane between the latitude and longitude of the row and those of the reference
  position, both taken in degrees as Cartesian coordinates.
\<close>

theorem find_nearby_airports_planar:
  "load_rows df = Inr (rows a) \<Longrightarrow> (r, d) \<in> set (fst (find_nearby_airports g t e n a)) \<Longrightarrow>
   d = sqrt ((lat r - point_y g)\<^sup>2 + (lon r - point_x g)\<^sup>2)"
proof -
  assume l: "load_rows df = Inr (rows a)"
    and m: "(r, d) \<in> set (fst (find_nearby_airports g t e n a))"
  from m have "r \<in> set (rows a) \<and> d = point_distance (geometry r) g"
    using set_nsmallest [of n] by (fastforce simp: fst_find_nearby_airports)
  with l load_rows_geometry [of df "rows a" r] show ?thesis
    by (simp add: point_distance_def add.commute)
qed

theorem find_nearby_airports_planar_witness:
  "load_rows example_df = Inr (rows example_airports) \<and>
   (airport_C, 2) \<in> set (fst (find_nearby_airports (Point 0 0) ''all'' ''AAAA'' 4 example_airports)) \<and>
   (2::real) = sqrt ((lat airport_C - point_y (Point 0 0))\<^sup>2 + (lon airport_C - point_x (Point 0 0))\<^sup>2)"
  using find_nearby_airports_planar
    [of example_df example_airports airport_C 2 "Point 0 0" "''all''" "''AAAA''" 4]
  by (simp add: example_rows query_all)

section \<open>Repeated queries\<close>

text \<open>
  Claim C10: the rows returned, in their order, depend on the arguments and on the rows of the
  table only. A query returns the same list whatever query ran before it on the table, and a
  query repeated on the table that its first run left returns the same list and leaves the
  same table.
\<close>

theorem find_nearby_airports_repeat:
  "fst (find_nearby_airports g t e n (snd (find_nearby_airports g' t' e' n' a))) =
     fst (find_nearby_airports g t e n a) \<and>
   find_nearby_airports g t e n (snd (find_nearby_airports g t e n a)) =
     find_nearby_airports g t e n a"
  by (simp add: prod_eq_iff fst_find_nearby_airports snd_find_nearby_airports)

section \<open>Rows of the source that the loader meets\<close>




section \<open>Load, then lookup\<close>

text \<open>
  Claim C8 says that the loader trims the code of each record and puts it in upper case. A
  source row with the code \<^verbatim>\<open>" lfmk"\<close> is loaded with that very code, which is not its
  normal form \<^verbatim>\<open>"LFMK"\<close>, and the lookup of the code that line 112 makes of \<^verbatim>\<open>"lfmk"\<close>
  finds nothing in the loaded table.
\<close>

theorem load_keeps_code_as_written:
  "load [row_lower] = Inr \<lparr>rows = [airport_lower], distance = None\<rparr> \<and>
   code_oaci airport_lower = Some '' lfmk'' \<and>
   spec_normalize_code '' lfmk'' = ''LFMK'' \<and>
   code_oaci airport_lower \<noteq> Some (spec_normalize_code '' lfmk'') \<and>
   get_airport_info (upper ''lfmk'') \<lparr>rows = [airport_lower], distance = None\<rparr> = None"
  by (simp add: load_def row_lower_def airport_lower_def make_airport_def normalize_lower
      upper_lower get_airport_info_def)

text \<open>
  Claim C8, as the code has it: the loader keeps the code of each row as the source has it,
  and for any code present in the source the lookup of that same code in the loaded table
  returns the name, type and position of a row of the table that has exactly that code.
\<close>

theorem load_get_airport_info:
  "load df = Inr a \<Longrightarrow> Some c \<in> set (map df_ident df) \<Longrightarrow>
   map code_oaci (rows a) = map df_ident df \<and>
   (\<exists>r \<in> set (rows a). code_oaci r = Some c \<and>
      get_airport_info c a =
        Some \<lparr>info_name = name r, info_type = type r, info_geometry = geometry r\<rparr>)"
proof -
  assume l: "load df = Inr a" and c: "Some c \<in> set (map df_ident df)"
  from l have m: "map code_oaci (rows a) = map df_ident df"
    by (auto simp: load_def split: sum.splits dest: load_rows_codes)
  with c have "Some c \<in> code_oaci ` set (rows a)" by (metis set_map)
  then have "find (\<lambda>r. code_oaci r = Some c) (rows a) \<noteq> None"
    by (auto simp: find_None_iff)
  then obtain r where r: "find (\<lambda>r. code_oaci r = Some c) (rows a) = Some r" by blast
  then have "r \<in> set (rows a) \<and> code_oaci r = Some c"
    by (auto simp: find_Some_iff)
  with r m show ?thesis by (auto simp: get_airport_info_find)
qed

theorem load_get_airport_info_witness:
  "load example_df = Inr example_airports \<and>
   Some ''BBBB'' \<in> set (map df_ident example_df) \<and>
   map code_oaci (rows example_airports) = map df_ident example_df \<and>
   get_airport_info ''BBBB'' example_airports =
     Some \<lparr>info_name = Some ''Bravo'', info_type = Some ''medium_airport'',
           info_geometry = Point 1 0\<rparr>"
  using load_get_airport_info [of example_df example_airports "''BBBB''"]
  by (simp add: load_example) (simp add: example_df_def example_airports_def
      get_airport_info_def airport_A_def airport_B_def airport_C_def)

section \<open>Arguments that the specification rejects\<close>

text \<open>
  Claim C9 says that a position out of range or a limit that is not positive gives the error
  \<open>InvalidQuery\<close> and no computed result. At the latitude 100 the call returns the two
  nearest rows with their distances, and with the limit 0 it returns too.
\<close>

theorem find_nearby_airports_accepts_invalid:
  "\<not> spec_valid_position (Point 0 100) \<and>
   find_nearby_airports_outcome (Point 0 100) ''all'' ''AAAA'' 4 example_airports
     \<noteq> Inl InvalidQuery \<and>
   fst (find_nearby_airports (Point 0 100) ''all'' ''AAAA'' 4 example_airports) =
     [(airport_B, sqrt 10001), (airport_C, sqrt 10004)] \<and>
   \<not> (0::int) < 0 \<and>
   find_nearby_airports_outcome (Point 0 0) ''all'' ''AAAA'' 0 example_airports
     \<noteq> Inl InvalidQuery"
  by (simp add: spec_valid_position_def find_nearby_airports_outcome_def query_out_of_range)

text \<open>
  Claim C9, as the code has it: the function never fails and checks neither the position nor
  the limit. Every call returns; with a limit that is not positive the result is empty; and
  for any position, in range or not, each row returned is a row of the table with its planar
  distance to that position.
\<close>

theorem find_nearby_airports_total:
  "find_nearby_airports_outcome g t e n a = Inr (find_nearby_airports g t e n a) \<and>
   (n \<le> 0 \<longrightarrow> fst (find_nearby_airports g t e n a) = []) \<and>
   (\<forall>(r, d) \<in> set (fst (find_nearby_airports g t e n a)).
      r \<in> set (rows a) \<and> d = point_distance (geometry r) g)"
proof (intro conjI impI)
  show "find_nearby_airports_outcome g t e n a = Inr (find_nearby_airports g t e n a)"
    by (simp add: find_nearby_airports_outcome_def)
next
  assume "n \<le> 0"
  then show "fst (find_nearby_airports g t e n a) = []"
    by (simp add: fst_find_nearby_airports nsmallest_def)
next
  show "\<forall>(r, d) \<in> set (fst (find_nearby_airports g t e n a)).
      r \<in> set (rows a) \<and> d = point_distance (geometry r) g"
    using set_nsmallest [of n] by (fastforce simp: fst_find_nearby_airports)
qed

theorem find_nearby_airports_total_witness:
  "(0::int) \<le> 0 \<and>
   fst (find_nearby_airports (Point 0 0) ''all'' ''AAAA'' 0 example_airports) = [] \<and>
   (airport_B, sqrt 10001)
     \<in> set (fst (find_nearby_airports (Point 0 100) ''all'' ''AAAA'' 4 example_airports)) \<and>
   airport_B \<in> set (rows example_airports) \<and>
   sqrt 10001 = point_distance (geometry airport_B) (Point 0 100)"
  using find_nearby_airports_total [of "Point 0 0" "''all''" "''AAAA''" 0 example_airports]
    find_nearby_airports_total [of "Point 0 100" "''all''" "''AAAA''" 4 example_airports]
  by (simp add: query_out_of_range)

end
